theory Spec2Isabelle
  imports Main
begin

section \<open>The navigation and dispatch engine of twitch-menu (src/twitch/app.py)\<close>

text \<open>
  The engine is the class \<open>TwitchApp\<close>. Its collaborators (the fetcher, the menu
  with its keybind registry, the media player, the clipboard, the browser) are outside
  the file; they appear here as an environment of fetch results, as a list of user
  responses consumed one per call of the menu, and as a log of the calls made to them.
  Python objects that are shared and mutated (content items, keybinds) live in a store
  addressed by references.
\<close>

subsection \<open>Data model\<close>

type_synonym ref = nat

text \<open>
  \<open>TwitchChannel | TwitchContent\<close>: the attributes the engine reads. \<open>ident\<close> is
  the attribute \<open>id\<close>.
\<close>

record content =
  ident :: string
  key :: string
  name :: string
  user_id :: string
  url :: string
  playable :: bool
  live :: bool
  game_name :: string
  viewer_count :: int
  title :: string
  created_at :: int
  chat :: string

text \<open>\<open>Keybind\<close> of pyselector: trigger code, key label, hidden flag.\<close>

record keybind =
  code :: int
  bind :: string
  hidden :: bool

text \<open>
  \<open>Category\<close> (twitch.models.category): a name and a dict from channel name to
  channel. A Python dict is an association list in insertion order.
\<close>

record category =
  cat_name :: string
  channels :: "(string \<times> ref) list"

record game =
  game_id :: string
  g_name :: string

text \<open>\<open>config.Keys\<close>: the key labels the engine looks keybinds up by.\<close>

record keys =
  group_by_cat :: string
  show_information :: string
  videos :: string
  clips :: string
  show_keys :: string

text \<open>
  What the menu hands back as the chosen item: nothing (\<open>None\<close>), the text the user
  typed when it matches no row, or one of the objects that were displayed.
\<close>

datatype 'a chosen = NoItem | Text string | Obj 'a


text \<open>
  One user response to a menu: what was picked (by row number in the displayed list)
  and the result code.
\<close>

datatype answer = Nothing | Typed string | Row nat | Rows "nat list"

type_synonym response = "answer \<times> int"

datatype error =
    ItemNotPlaylableError "ref chosen"
  | ChannelOfflineError string
  | KeybindNotFound
  | KeybindExists
  | AttributeError
  | KeyError
  | IndexError

text \<open>Keyword arguments of a keybind action: each key present or absent.\<close>

record kwargs =
  kw_item :: "ref chosen option"
  kw_items :: "(string \<times> ref) list option"
  kw_keybind :: "ref option"
  kw_keycode :: "int option"
  kw_query :: "string option"
  kw_game :: "string option"

text \<open>
  How a screen ends: it returns an exit code, it raises, it returns whatever the
  action bound to a keybind returns for the given arguments (the actions are bound at
  configuration time, outside this file), or the menu is still waiting for the user
  (the list of responses is used up).
\<close>

datatype outcome = Return int | Raise error | Action ref kwargs | Blocked

datatype display = DText string | DObj ref | DCat category | DGame game | DKey ref

datatype fetch_op =
    ChannelsAndStreams
  | Videos string
  | Clips string
  | ChannelsByQuery string
  | GamesByQuery string
  | StreamsByGameId string
  | TopStreams
  | TopGamesWithStreams
  | CloseFetcher

text \<open>
  The calls made to the collaborators. \<open>Play n u\<close> is \<open>self.play(name=n, url=u)\<close>,
  which runs the player on \<open>u\<close> and waits for it; \<open>Spawn u\<close> is
  \<open>sh.mpv(u, _bg=True)\<close>, the player started in the background; \<open>WaitExit u\<close> is
  \<open>wait()\<close> on that process, which blocks until it has exited.
\<close>

datatype event =
    Fetch fetch_op
  | MenuSelect "display list" string
  | MenuInput string string
  | Play string string
  | Spawn string
  | WaitExit string
  | Copy string
  | OpenTab string

record state =
  kb :: "ref \<Rightarrow> keybind"
  registered :: "ref list"
  temp_hidden :: "ref list"
  objs :: "ref \<Rightarrow> content"
  trace :: "event list"

text \<open>
  The collaborators' data: the configured key labels, what each fetch operation
  returns, and the helpers of \<open>twitch.format\<close> and \<open>twitch.constants\<close> that are not
  in this file (taken as parameters).
\<close>

record env =
  markup :: bool
  ansi :: bool
  conf_keys :: keys
  channels_and_streams :: "(string \<times> ref) list"
  online :: nat
  fetch_videos :: "string \<Rightarrow> ref list"
  fetch_clips :: "string \<Rightarrow> ref list"
  channels_by_query :: "string \<Rightarrow> ref list"
  games_by_query :: "string \<Rightarrow> game list"
  streams_by_game_id :: "string \<Rightarrow> ref list"
  top_streams :: "ref list"
  top_games_with_streams :: "(string \<times> category) list"
  sanitize :: "string \<Rightarrow> string"
  stringify :: "content \<Rightarrow> string \<Rightarrow> string list"
  number :: "int \<Rightarrow> string"
  SEPARATOR :: string

definition UserConfirms :: int where
  "UserConfirms = 0"

definition UserCancel :: int where
  "UserCancel = 1"

definition emit :: "event \<Rightarrow> state \<Rightarrow> state" where
  "emit e s = s\<lparr>trace := trace s @ [e]\<rparr>"

subsection \<open>Python dicts and strings\<close>

text \<open>\<open>d[k] = v\<close>: an existing key keeps its place, a new key goes last.\<close>

fun dict_set :: "'k \<Rightarrow> 'v \<Rightarrow> ('k \<times> 'v) list \<Rightarrow> ('k \<times> 'v) list" where
  "dict_set k v [] = [(k, v)]"
| "dict_set k v ((k', v') # d) = (if k' = k then (k, v) # d else (k', v') # dict_set k v d)"

text \<open>A dict comprehension \<open>{f(x): x for x in xs}\<close>.\<close>

definition dict_of :: "('v \<Rightarrow> 'k) \<Rightarrow> 'v list \<Rightarrow> ('k \<times> 'v) list" where
  "dict_of f xs = foldl (\<lambda>d x. dict_set (f x) x d) [] xs"

definition dict_values :: "('k \<times> 'v) list \<Rightarrow> 'v list" where
  "dict_values d = map snd d"

text \<open>Decimal digits of a length, as an f-string prints it.\<close>

function str_nat :: "nat \<Rightarrow> string" where
  "str_nat n = (if n < 10 then [char_of (48 + n)] else str_nat (n div 10) @ [char_of (48 + n mod 10)])"
  by pat_completeness auto
termination
  by (relation "measure id") auto

declare str_nat.simps [simp del]

text \<open>
  \<open>str.strip()\<close>: the characters Python counts as white space, among the code points
  below 256 that a \<open>char\<close> holds.
\<close>

definition py_isspace :: "char \<Rightarrow> bool" where
  "py_isspace c = (of_char c \<in> {9, 10, 11, 12, 13, 28, 29, 30, 31, 32, 133, 160 :: nat})"

definition strip :: "string \<Rightarrow> string" where
  "strip s = rev (dropWhile py_isspace (rev (dropWhile py_isspace s)))"

text \<open>The format spec \<open>:<n\<close>: pad with spaces on the right up to width \<open>n\<close>.\<close>

definition ljust :: "nat \<Rightarrow> string \<Rightarrow> string" where
  "ljust n s = s @ replicate (n - length s) (CHR '' '')"


subsection \<open>The keybind registry\<close>

text \<open>
  Modelled from the spec: the registry is \<open>self.menu.keybind\<close>, pyselector's key
  manager, which is not in this file. Section 4.1 of the spec gives its contract:
  \<open>registerAll(keybinds, existOk=false)\<close> activates keybinds and fails on a code that
  is already registered unless \<open>existOk\<close>; \<open>unregisterAll()\<close> clears the active
  keybinds; \<open>getByCode\<close> and \<open>getByBind\<close> fail with NotFound for a code or label that
  is not registered; \<open>toggleHidden\<close> hides all keybind hints and, with \<open>restore\<close>,
  gives them back their prior visibility. The registry holds references to keybind
  objects, in the order of registration; \<open>toggle\<close> flips a keybind's hidden flag and
  \<open>hide\<close> sets it.
\<close>

definition unregister_all :: "state \<Rightarrow> state" where
  "unregister_all s = s\<lparr>registered := []\<rparr>"

definition registered_codes :: "state \<Rightarrow> int list" where
  "registered_codes s = map (\<lambda>r. code (kb s r)) (registered s)"

definition register :: "bool \<Rightarrow> ref \<Rightarrow> state \<Rightarrow> error option \<times> state" where
  "register exist_ok r s =
     (if code (kb s r) \<in> set (registered_codes s) then
        (if exist_ok then
           (None, s\<lparr>registered := filter (\<lambda>x. code (kb s x) \<noteq> code (kb s r)) (registered s) @ [r]\<rparr>)
         else (Some KeybindExists, s))
      else (None, s\<lparr>registered := registered s @ [r]\<rparr>))"

fun register_all :: "bool \<Rightarrow> ref list \<Rightarrow> state \<Rightarrow> error option \<times> state" where
  "register_all exist_ok [] s = (None, s)"
| "register_all exist_ok (r # rs) s =
     (case register exist_ok r s of
        (Some err, s') \<Rightarrow> (Some err, s')
      | (None, s') \<Rightarrow> register_all exist_ok rs s')"

definition get_by_code :: "state \<Rightarrow> int \<Rightarrow> error + ref" where
  "get_by_code s c =
     (case filter (\<lambda>r. code (kb s r) = c) (registered s) of
        [] \<Rightarrow> Inl KeybindNotFound
      | r # _ \<Rightarrow> Inr r)"

definition get_by_bind :: "state \<Rightarrow> string \<Rightarrow> error + ref" where
  "get_by_bind s b =
     (case filter (\<lambda>r. bind (kb s r) = b) (registered s) of
        [] \<Rightarrow> Inl KeybindNotFound
      | r # _ \<Rightarrow> Inr r)"

fun get_by_bind_list :: "state \<Rightarrow> string list \<Rightarrow> error + ref list" where
  "get_by_bind_list s [] = Inr []"
| "get_by_bind_list s (b # bs) =
     (case get_by_bind s b of
        Inl err \<Rightarrow> Inl err
      | Inr r \<Rightarrow> (case get_by_bind_list s bs of Inl err \<Rightarrow> Inl err | Inr rs \<Rightarrow> Inr (r # rs)))"


definition set_hidden :: "bool \<Rightarrow> ref \<Rightarrow> state \<Rightarrow> state" where
  "set_hidden b r s = s\<lparr>kb := (kb s)(r := (kb s r)\<lparr>hidden := b\<rparr>)\<rparr>"

definition toggle :: "ref \<Rightarrow> state \<Rightarrow> state" where
  "toggle r s = set_hidden (\<not> hidden (kb s r)) r s"


definition toggle_hidden :: "bool \<Rightarrow> state \<Rightarrow> state" where
  "toggle_hidden restore s =
     (if restore then (fold (set_hidden False) (temp_hidden s) s)\<lparr>temp_hidden := []\<rparr>
      else (let visible = filter (\<lambda>r. \<not> hidden (kb s r)) (registered s)
            in (fold (set_hidden True) visible s)\<lparr>temp_hidden := visible\<rparr>))"

subsection \<open>The menu\<close>

text \<open>
  Modelled from the spec: the menu backend is pyselector's, not in this file. Section
  4.4: \<open>select(items, message, multiSelect=false)\<close> blocks until the user answers
  and returns the chosen item (or items, or none) and a result code. The chosen item
  is one of the items displayed, found by its row; a row that is not on display
  chooses nothing, and several rows can only be chosen in a multi-select menu.
\<close>

definition pick :: "'a list \<Rightarrow> answer \<Rightarrow> 'a chosen" where
  "pick xs a =
     (case a of
        Nothing \<Rightarrow> NoItem
      | Typed t \<Rightarrow> Text t
      | Row i \<Rightarrow> (if i < length xs then Obj (xs ! i) else NoItem)
      | Rows js \<Rightarrow> NoItem)"


definition menu_select ::
  "('a \<Rightarrow> display) \<Rightarrow> 'a list \<Rightarrow> string \<Rightarrow> state \<Rightarrow> response \<Rightarrow> ('a chosen \<times> int) \<times> state" where
  "menu_select disp xs mesg s r = ((pick xs (fst r), snd r), emit (MenuSelect (map disp xs) mesg) s)"


text \<open>Python's truth value of what the menu returned; an object counts as true.\<close>

fun truthy :: "'a chosen \<Rightarrow> bool" where
  "truthy NoItem = False"
| "truthy (Text t) = (t \<noteq> [])"
| "truthy (Obj x) = True"

subsection \<open>Helpers of the engine\<close>

text \<open>
  \<open>TwitchApp.select\<close>: an empty item list is shown as the single row
  \<open>err: no items\<close> and answered with \<open>(None, UserCancel)\<close>, whatever the user does.
\<close>

definition select ::
  "('a \<Rightarrow> display) \<Rightarrow> (string \<times> 'a) list \<Rightarrow> string \<Rightarrow> state \<Rightarrow> response \<Rightarrow> ('a chosen \<times> int) \<times> state" where
  "select disp items mesg s r =
     (if items = [] then
        ((NoItem, UserCancel), snd (menu_select DText [''err: no items''] mesg s r))
      else menu_select disp (dict_values items) mesg s r)"


definition play :: "string \<Rightarrow> string \<Rightarrow> state \<Rightarrow> state" where
  "play n u s = emit (Play n u) s"

definition get_key_by_code :: "state \<Rightarrow> int \<Rightarrow> error + ref" where
  "get_key_by_code s keycode = get_by_code s keycode"

definition get_key_by_bind :: "state \<Rightarrow> string \<Rightarrow> error + ref" where
  "get_key_by_bind s b = get_by_bind s b"

text \<open>
  \<open>take_input\<close>: the keybind hints are hidden while the user types; \<open>reply\<close> is what
  \<open>menu.input\<close> returns.
\<close>

definition take_input :: "string \<Rightarrow> string \<Rightarrow> string option \<Rightarrow> state \<Rightarrow> string \<times> state" where
  "take_input mesg prompt reply s =
     (let s1 = toggle_hidden False s;
          s2 = emit (MenuInput prompt mesg) s1;
          s3 = toggle_hidden True s2
      in case reply of
           None \<Rightarrow> ([], s3)
         | Some user_input \<Rightarrow> (if user_input = [] then ([], s3) else (strip user_input, s3)))"

definition toggle_content_keybinds :: "env \<Rightarrow> state \<Rightarrow> error option \<times> state" where
  "toggle_content_keybinds e s =
     (case get_by_bind_list s
             [show_information (conf_keys e), videos (conf_keys e), clips (conf_keys e)] of
        Inl err \<Rightarrow> (Some err, s)
      | Inr content_keys \<Rightarrow>
          register_all True content_keys (fold toggle content_keys (unregister_all s)))"




definition get_channel_videos ::
  "env \<Rightarrow> ref chosen \<Rightarrow> state \<Rightarrow> error + (((string \<times> ref) list \<times> string) \<times> state)" where
  "get_channel_videos e item s =
     (case item of
        Obj x \<Rightarrow>
          (let s1 = emit (Fetch (Videos (user_id (objs s x)))) s;
               data = dict_of (\<lambda>v. key (objs s1 v)) (fetch_videos e (user_id (objs s x)))
           in if length data = 0 then
                Inr ((data, ''> No videos found from <'' @ name (objs s1 x) @ ''> channel''), s1)
              else
                Inr ((data, ''> Showing ('' @ str_nat (length data) @ '') videos from <''
                              @ name (objs s1 x) @ ''> channel''), s1))
      | _ \<Rightarrow> Inl AttributeError)"

definition no_kwargs :: kwargs where
  "no_kwargs = \<lparr>kw_item = None, kw_items = None, kw_keybind = None, kw_keycode = None,
                kw_query = None, kw_game = None\<rparr>"


subsection \<open>Categories\<close>







subsection \<open>The screens\<close>

text \<open>
  Every screen takes the state and the user's responses still to come, and gives its
  outcome and the state it leaves. With \<open>Blocked\<close> the state is the one in which the
  unanswered menu was opened.
\<close>

fun show_and_play :: "(string \<times> ref) list \<Rightarrow> string \<Rightarrow> state \<Rightarrow> response list \<Rightarrow> outcome \<times> state" where
  "show_and_play items mesg s [] = (Blocked, s)"
| "show_and_play items mesg s (r # rs) =
     (case select DObj items mesg s r of
        ((item, keycode), s1) \<Rightarrow>
          if keycode = UserConfirms then
            (case item of
               Obj x \<Rightarrow>
                 if \<not> playable (objs s1 x) then (Raise (ItemNotPlaylableError item), s1)
                 else (Return 0, play (name (objs s1 x)) (url (objs s1 x)) s1)
             | _ \<Rightarrow> (Raise AttributeError, s1))
          else if \<not> truthy item \<or> keycode = UserCancel then (Return UserCancel, s1)
          else if keycode \<notin> {UserConfirms, UserCancel} then
            (case get_key_by_code s1 keycode of
               Inl err \<Rightarrow> (Raise err, s1)
             | Inr k \<Rightarrow> (Action k (no_kwargs\<lparr>kw_items := Some items, kw_item := Some item\<rparr>), s1))
          else show_and_play items mesg s1 rs)"

definition show_videos :: "env \<Rightarrow> kwargs \<Rightarrow> state \<Rightarrow> response list \<Rightarrow> outcome \<times> state" where
  "show_videos e kw s rs =
     (case kw_item kw of
        None \<Rightarrow> (Raise KeyError, s)
      | Some item \<Rightarrow>
          (case get_channel_videos e item (unregister_all s) of
             Inl err \<Rightarrow> (Raise err, unregister_all s)
           | Inr ((vids, mesg), s1) \<Rightarrow> show_and_play vids mesg s1 rs))"


text \<open>The \<open>while True\<close> loop of \<open>show_all_streams\<close>.\<close>

fun all_streams_loop ::
  "env \<Rightarrow> (string \<times> ref) list \<Rightarrow> string \<Rightarrow> ref list \<Rightarrow> state \<Rightarrow> response list \<Rightarrow> outcome \<times> state" where
  "all_streams_loop e items mesg currentkeys s [] =
     (case register_all False currentkeys (unregister_all s) of
        (Some err, s1) \<Rightarrow> (Raise err, s1)
      | (None, s1) \<Rightarrow> (Blocked, s1))"
| "all_streams_loop e items mesg currentkeys s (r # rs) =
     (case register_all False currentkeys (unregister_all s) of
        (Some err, s1) \<Rightarrow> (Raise err, s1)
      | (None, s1) \<Rightarrow>
          (case select DObj items mesg s1 r of
             ((item, keycode), s2) \<Rightarrow>
               if \<not> truthy item then (Return UserCancel, s2)
               else
                 (case item of
                    Obj x \<Rightarrow>
                      if \<not> playable (objs s2 x) \<and> keycode = UserConfirms then
                        show_videos e (no_kwargs\<lparr>kw_item := Some item\<rparr>) s2 rs
                      else if keycode = UserConfirms then
                        (Return 0, play (name (objs s2 x)) (url (objs s2 x)) s2)
                      else if keycode \<notin> {UserConfirms, UserCancel} then
                        (case get_key_by_code s2 keycode of
                           Inl err \<Rightarrow> (Raise err, s2)
                         | Inr k \<Rightarrow>
                             (Action k (no_kwargs\<lparr>kw_item := Some item, kw_keybind := Some k,
                                                   kw_items := Some items\<rparr>), s2))
                      else all_streams_loop e items mesg currentkeys s2 rs
                  | _ \<Rightarrow> (Raise (ItemNotPlaylableError item), s2))))"




text \<open>The \<open>while True\<close> loop of \<open>show_by_query\<close>.\<close>

fun by_query_loop :: "env \<Rightarrow> (string \<times> ref) list \<Rightarrow> string \<Rightarrow> state \<Rightarrow> response list \<Rightarrow> outcome \<times> state" where
  "by_query_loop e items mesg s [] = (Blocked, s)"
| "by_query_loop e items mesg s (r # rs) =
     (case select DObj items mesg s r of
        ((item, keycode), s1) \<Rightarrow>
          if \<not> truthy item \<or> keycode = UserCancel then (Return UserCancel, s1)
          else
            (case item of
               Obj x \<Rightarrow>
                 if \<not> playable (objs s1 x) \<and> keycode = UserConfirms then
                   show_videos e (no_kwargs\<lparr>kw_item := Some item\<rparr>) s1 rs
                 else if keycode = UserConfirms then
                   (Return 0, play (name (objs s1 x)) (url (objs s1 x)) s1)
                 else if keycode \<notin> {UserConfirms, UserCancel} then
                   (case get_key_by_code s1 keycode of
                      Inl err \<Rightarrow> (Raise err, s1)
                    | Inr k \<Rightarrow>
                        (Action k (no_kwargs\<lparr>kw_items := Some items, kw_item := Some item\<rparr>), s1))
                 else by_query_loop e items mesg s1 rs
             | _ \<Rightarrow> (Raise AttributeError, s1)))"

text \<open>
  \<open>show_by_query\<close>; \<open>reply\<close> is the user's answer to the free-text prompt, read
  only when no query is passed.
\<close>

definition show_by_query ::
  "env \<Rightarrow> kwargs \<Rightarrow> string option \<Rightarrow> state \<Rightarrow> response list \<Rightarrow> outcome \<times> state" where
  "show_by_query e kw reply s rs =
     (case (case kw_query kw of
              Some q \<Rightarrow> if q \<noteq> [] then (q, s)
                        else take_input ''Search <channels> by query'' ''TwitchChannelSearch> '' reply s
            | None \<Rightarrow> take_input ''Search <channels> by query'' ''TwitchChannelSearch> '' reply s) of
        (query, s1) \<Rightarrow>
          if query = [] then (Return 1, s1)
          else
            (let s2 = emit (Fetch (ChannelsByQuery query)) s1;
                 items = dict_of (\<lambda>c. ident (objs s2 c)) (channels_by_query e query)
             in case toggle_content_keybinds e s2 of
                  (Some err, s3) \<Rightarrow> (Raise err, s3)
                | (None, s3) \<Rightarrow>
                    by_query_loop e items
                      (''> Showing ('' @ str_nat (length items) @ '') <channels> by query: ''
                         @ [CHR 0x22] @ query @ [CHR 0x22])
                      s3 rs))"


definition show_top_streams :: "env \<Rightarrow> kwargs \<Rightarrow> state \<Rightarrow> response list \<Rightarrow> outcome \<times> state" where
  "show_top_streams e kw s rs =
     (case get_key_by_bind s (group_by_cat (conf_keys e)) of
        Inl err \<Rightarrow> (Raise err, s)
      | Inr games_keybind \<Rightarrow>
          (case toggle_content_keybinds e s of
             (Some err, s1) \<Rightarrow> (Raise err, s1)
           | (None, s1) \<Rightarrow>
               (case register False games_keybind s1 of
                  (Some err, s2) \<Rightarrow> (Raise err, s2)
                | (None, s2) \<Rightarrow>
                    (let s3 = emit (Fetch TopStreams) s2;
                         streams = dict_of (\<lambda>x. name (objs s3 x)) (top_streams e)
                     in show_and_play streams
                          (''> Showing ('' @ str_nat (length streams) @ '') top streams'') s3 rs))))"





definition open_chat :: "env \<Rightarrow> kwargs \<Rightarrow> state \<Rightarrow> outcome \<times> state" where
  "open_chat e kw s =
     (case kw_item kw of
        None \<Rightarrow> (Raise KeyError, s)
      | Some (Obj x) \<Rightarrow>
          if \<not> live (objs s x) then
            (Raise (ChannelOfflineError (''item '' @ name (objs s x) @ '' must be online'')), s)
          else (Return 0, emit (OpenTab (chat (objs s x))) s)
      | Some _ \<Rightarrow> (Raise AttributeError, s))"

definition quit :: "env \<Rightarrow> kwargs \<Rightarrow> state \<Rightarrow> outcome \<times> state" where
  "quit e kw s =
     (Return (case kw_keycode kw of None \<Rightarrow> 0 | Some c \<Rightarrow> c), emit (Fetch CloseFetcher) s)"

subsection \<open>A small configuration to run the screens on\<close>

text \<open>
  Two live channels of the game X: A (reference 0), which is not playable, and B
  (reference 1), which is; every other reference is an offline playable video.
  Keybind \<open>r\<close> has trigger code \<open>10 + r\<close>; keybinds 0 to 4 are registered, under
  the labels the configuration names. The helpers of \<open>twitch.format\<close> are given some
  plausible behaviour: \<open>sanitize\<close> drops the characters outside ASCII.
\<close>

definition ex_content :: "string \<Rightarrow> string \<Rightarrow> bool \<Rightarrow> bool \<Rightarrow> string \<Rightarrow> int \<Rightarrow> content" where
  "ex_content n u p l g v =
     \<lparr>ident = n, key = n, name = n, user_id = n, url = u, playable = p, live = l,
      game_name = g, viewer_count = v, title = n, created_at = 0, chat = []\<rparr>"

definition ex_objs :: "ref \<Rightarrow> content" where
  "ex_objs = (\<lambda>_. ex_content ''v'' ''uv'' True False [] 0)
     (0 := ex_content ''A'' ''u1'' False True ''X'' 10,
      1 := ex_content ''B'' ''u2'' True True ''X'' 5)"

definition ex_kb :: "ref \<Rightarrow> keybind" where
  "ex_kb = (\<lambda>r. \<lparr>code = 10 + int r,
                   bind = (if r < 5 then [''alt-g'', ''alt-i'', ''alt-v'', ''alt-c'', ''alt-k''] ! r
                           else ''alt-x''),
                   hidden = False\<rparr>)"

definition ex_state :: state where
  "ex_state =
     \<lparr>kb = ex_kb, registered = [0, 1, 2, 3, 4], temp_hidden = [], objs = ex_objs, trace = []\<rparr>"

definition ex_items :: "(string \<times> ref) list" where
  "ex_items = [(''a'', 0), (''b'', 1)]"

definition ex_env :: env where
  "ex_env =
     \<lparr>markup = False, ansi = False,
      conf_keys = \<lparr>group_by_cat = ''alt-g'', show_information = ''alt-i'', videos = ''alt-v'',
                   clips = ''alt-c'', show_keys = ''alt-k''\<rparr>,
      channels_and_streams = ex_items,
      online = 2,
      fetch_videos = (\<lambda>_. [2, 3]),
      fetch_clips = (\<lambda>_. []),
      channels_by_query = (\<lambda>_. [0, 1]),
      games_by_query = (\<lambda>_. [\<lparr>game_id = ''1'', g_name = ''X''\<rparr>]),
      streams_by_game_id = (\<lambda>_. [0, 1]),
      top_streams = [0, 1],
      top_games_with_streams = [(''X'', \<lparr>cat_name = ''X'', channels = [(''A'', 0), (''B'', 1)]\<rparr>)],
      sanitize = filter (\<lambda>c. of_char c < (128 :: nat)),
      stringify = (\<lambda>c sep. [ljust 18 ''name'' @ sep @ name c, ljust 18 ''title'' @ sep @ title c]),
      number = (\<lambda>n. str_nat (nat n)),
      SEPARATOR = '' : ''\<rparr>"



section \<open>Properties\<close>

subsection \<open>The selection helper\<close>




subsection \<open>Confirm without an item in \<open>show_and_play\<close>\<close>




subsection \<open>Confirming an item\<close>

lemma ex_register_all:
  "register_all False [0, 1, 2, 3, 4] (unregister_all ex_state) = (None, ex_state)"
  by (simp add: register_def registered_codes_def unregister_all_def ex_state_def ex_kb_def)

lemma ex_select_row:
  "select DObj ex_items [] ex_state (Row i, c) =
     ((pick [0, 1] (Row i), c), emit (MenuSelect [DObj 0, DObj 1] []) ex_state)"
  by (simp add: select_def menu_select_def dict_values_def ex_items_def)

text \<open>
  C1, as amended. The selection is a displayed item \<open>x\<close> together with the code
  Confirm. In \<open>show_all_streams\<close> (whose loop runs once the current keybinds are
  registered again) and in \<open>show_by_query\<close>: when \<open>x\<close> is playable the screen calls
  the play action with the name and the url of \<open>x\<close> and returns 0; when it is not, the
  screen is the result of \<open>show_videos\<close> for \<open>x\<close>, the sub-screen of its videos, and
  plays nothing itself. In \<open>show_and_play\<close> a playable \<open>x\<close> is played in the same
  way, but an item that is not playable opens no sub-screen: the screen raises
  \<open>ItemNotPlaylableError\<close> and plays nothing.
\<close>

theorem confirm_dispatch:
  assumes sel: "select DObj items mesg s r = ((Obj x, UserConfirms), s2)"
    and reg: "register_all False currentkeys (unregister_all s0) = (None, s)"
  shows "all_streams_loop e items mesg currentkeys s0 (r # rs) =
           (if playable (objs s2 x)
            then (Return 0, play (name (objs s2 x)) (url (objs s2 x)) s2)
            else show_videos e (no_kwargs\<lparr>kw_item := Some (Obj x)\<rparr>) s2 rs)
       \<and> by_query_loop e items mesg s (r # rs) =
           (if playable (objs s2 x)
            then (Return 0, play (name (objs s2 x)) (url (objs s2 x)) s2)
            else show_videos e (no_kwargs\<lparr>kw_item := Some (Obj x)\<rparr>) s2 rs)
       \<and> show_and_play items mesg s (r # rs) =
           (if playable (objs s2 x)
            then (Return 0, play (name (objs s2 x)) (url (objs s2 x)) s2)
            else (Raise (ItemNotPlaylableError (Obj x)), s2))"
proof -
  have a: "all_streams_loop e items mesg currentkeys s0 (r # rs) =
           (if playable (objs s2 x)
            then (Return 0, play (name (objs s2 x)) (url (objs s2 x)) s2)
            else show_videos e (no_kwargs\<lparr>kw_item := Some (Obj x)\<rparr>) s2 rs)"
    using sel reg by simp
  have b: "by_query_loop e items mesg s (r # rs) =
           (if playable (objs s2 x)
            then (Return 0, play (name (objs s2 x)) (url (objs s2 x)) s2)
            else show_videos e (no_kwargs\<lparr>kw_item := Some (Obj x)\<rparr>) s2 rs)"
    using sel by (simp add: UserConfirms_def UserCancel_def)
  have c: "show_and_play items mesg s (r # rs) =
           (if playable (objs s2 x)
            then (Return 0, play (name (objs s2 x)) (url (objs s2 x)) s2)
            else (Raise (ItemNotPlaylableError (Obj x)), s2))"
    using sel by simp
  show ?thesis
    using a b c by simp
qed

text \<open>
  The claim as stated fails in \<open>show_and_play\<close>: confirming channel A, which is not
  playable, raises, and the only call made is the menu's (no video list is fetched).
\<close>

theorem confirm_unplayable_counterexample:
  "\<not> playable (ex_objs 0)
   \<and> fst (show_and_play ex_items [] ex_state [(Row 0, UserConfirms)])
       = Raise (ItemNotPlaylableError (Obj 0))
   \<and> trace (snd (show_and_play ex_items [] ex_state [(Row 0, UserConfirms)]))
       = [MenuSelect [DObj 0, DObj 1] []]"
  by code_simp

theorem confirm_dispatch_witness:
  "select DObj ex_items [] ex_state (Row 1, 0)
     = ((Obj 1, UserConfirms), emit (MenuSelect [DObj 0, DObj 1] []) ex_state)
   \<and> register_all False [0, 1, 2, 3, 4] (unregister_all ex_state) = (None, ex_state)
   \<and> fst (all_streams_loop ex_env ex_items [] [0, 1, 2, 3, 4] ex_state [(Row 1, 0)]) = Return 0
   \<and> trace (snd (by_query_loop ex_env ex_items [] ex_state [(Row 1, 0)]))
       = [MenuSelect [DObj 0, DObj 1] [], Play ''B'' ''u2'']
   \<and> fst (show_and_play ex_items [] ex_state [(Row 1, 0)]) = Return 0"
proof -
  have h: "select DObj ex_items [] ex_state (Row 1, 0)
     = ((Obj 1, UserConfirms), emit (MenuSelect [DObj 0, DObj 1] []) ex_state)"
    by (simp add: ex_select_row pick_def UserConfirms_def)
  have p: "playable (objs (emit (MenuSelect [DObj 0, DObj 1] []) ex_state) 1)"
    by (simp add: emit_def ex_state_def ex_objs_def ex_content_def)
  have n: "name (objs (emit (MenuSelect [DObj 0, DObj 1] []) ex_state) 1) = ''B''"
      "url (objs (emit (MenuSelect [DObj 0, DObj 1] []) ex_state) 1) = ''u2''"
      "trace (emit (MenuSelect [DObj 0, DObj 1] []) ex_state) = [MenuSelect [DObj 0, DObj 1] []]"
    by (simp_all add: emit_def ex_state_def ex_objs_def ex_content_def)
  show ?thesis
    using h ex_register_all p n
      confirm_dispatch [OF h ex_register_all, of ex_env "[]"]
    by (simp add: play_def emit_def)
qed


subsection \<open>Cancelling\<close>


lemma select_fst:
  "fst (select disp items mesg s r) =
     (if items = [] then (NoItem, UserCancel) else (pick (dict_values items) (fst r), snd r))"
  by (simp add: select_def menu_select_def)

lemma select_snd:
  "snd (select disp items mesg s r) =
     emit (MenuSelect (if items = [] then [DText ''err: no items''] else map disp (dict_values items)) mesg) s"
  by (simp add: select_def menu_select_def)

lemma select_split:
  "select disp items mesg s r = (fst (select disp items mesg s r), snd (select disp items mesg s r))"
  by simp




















subsection \<open>Result codes that match no keybind\<close>

lemma dict_set_not_Nil [simp]: "dict_set k v d \<noteq> []"
  by (cases d) (auto split: if_splits)

lemma dict_of_Nil [simp]: "dict_of f [] = []"
  by (simp add: dict_of_def)

lemma dict_of_snoc: "dict_of f (xs @ [x]) = dict_set (f x) x (dict_of f xs)"
  by (simp add: dict_of_def)

lemma dict_of_eq_Nil [simp]: "dict_of f xs = [] \<longleftrightarrow> xs = []"
  by (cases xs rule: rev_cases) (simp_all add: dict_of_snoc)

lemma registered_toggle [simp]: "registered (toggle k s) = registered s"
  by (simp add: toggle_def set_hidden_def)


lemma get_by_code_registered:
  "c \<in> set (registered_codes s) \<Longrightarrow>
   \<exists>r. get_by_code s c = Inr r \<and> r \<in> set (registered s) \<and> code (kb s r) = c"
proof -
  assume "c \<in> set (registered_codes s)"
  then have "filter (\<lambda>r. code (kb s r) = c) (registered s) \<noteq> []"
    by (auto simp: registered_codes_def filter_empty_conv)
  then obtain r rs where f: "filter (\<lambda>r. code (kb s r) = c) (registered s) = r # rs"
    by (cases "filter (\<lambda>r. code (kb s r) = c) (registered s)") auto
  then have "r \<in> set (filter (\<lambda>r. code (kb s r) = c) (registered s))"
    by simp
  then have "r \<in> set (registered s) \<and> code (kb s r) = c"
    by simp
  then show ?thesis
    using f by (simp add: get_by_code_def)
qed

lemma registered_codes_emit [simp]:
  "registered_codes (emit ev s) = registered_codes s"
  by (simp add: registered_codes_def emit_def)

lemma registered_codes_toggle [simp]:
  "registered_codes (toggle k s) = registered_codes s"
  by (simp add: registered_codes_def toggle_def set_hidden_def)



















subsection \<open>Empty item lists\<close>












end
